theory Spec2Isabelle
  imports Main
begin

section \<open>notalib/date.py: date utilities\<close>

text \<open>
  A shallow embedding of \<^verbatim>\<open>notalib/date.py\<close>. Python integers are \<open>int\<close>, strings are
  \<open>string\<close>, and every \<^verbatim>\<open>raise\<close> is a value \<open>Inl e\<close> of the result type
  \<open>error + 'a\<close>.
\<close>

subsection \<open>Exceptions\<close>

text \<open>
  The exception classes the module raises or lets through, each with its message.
  \<open>OtherError\<close> stands for any exception that is not one of the three named classes
  (nor a subclass of them).
\<close>

datatype error =
    ValueError string
  | TypeError string
  | NotImplementedError string
  | OtherError string

fun is_ValueError :: "error \<Rightarrow> bool" where
  "is_ValueError (ValueError _) = True"
| "is_ValueError _ = False"

fun is_TypeError :: "error \<Rightarrow> bool" where
  "is_TypeError (TypeError _) = True"
| "is_TypeError _ = False"

fun is_NotImplementedError :: "error \<Rightarrow> bool" where
  "is_NotImplementedError (NotImplementedError _) = True"
| "is_NotImplementedError _ = False"

subsection \<open>The data model: \<^verbatim>\<open>Week\<close> and \<^verbatim>\<open>WeekNumbering\<close>\<close>

text \<open>\<^verbatim>\<open>class Week(NamedTuple): week: int; year: int\<close>\<close>

datatype Week = Week (week: int) (year: int)

text \<open>\<^verbatim>\<open>class WeekNumbering(Enum): NORMAL = auto(); MATCH_YEAR = auto()\<close>\<close>

datatype WeekNumbering = NORMAL | MATCH_YEAR

text \<open>\<^verbatim>\<open>mode.name\<close> of an enumeration member.\<close>

fun name :: "WeekNumbering \<Rightarrow> string" where
  "name NORMAL = ''NORMAL''"
| "name MATCH_YEAR = ''MATCH_YEAR''"

text \<open>
  Python does not enforce the annotation \<^verbatim>\<open>mode: WeekNumbering\<close>: the argument is any
  object. \<open>Member m\<close> is an instance of the enumeration; \<open>NonMember r\<close> is any other object,
  carrying its rendering \<^verbatim>\<open>str(mode)\<close>, which is all the code reads of it.
\<close>

datatype mode_value = Member WeekNumbering | NonMember string

fun isinstance_WeekNumbering :: "mode_value \<Rightarrow> bool" where
  "isinstance_WeekNumbering (Member _) = True"
| "isinstance_WeekNumbering (NonMember _) = False"

text \<open>\<^verbatim>\<open>str(mode)\<close>, as the f-string of the \<^verbatim>\<open>TypeError\<close> renders it.\<close>

fun py_str :: "mode_value \<Rightarrow> string" where
  "py_str (Member m) = ''WeekNumbering.'' @ name m"
| "py_str (NonMember r) = r"

text \<open>\<^verbatim>\<open>mode.name\<close>; the code reads it past the \<^verbatim>\<open>isinstance\<close> check only.\<close>

fun mode_name :: "mode_value \<Rightarrow> string" where
  "mode_name (Member m) = name m"
| "mode_name (NonMember r) = r"

subsection \<open>The library's calendar: \<^verbatim>\<open>datetime.date\<close>\<close>

text \<open>
  \<^verbatim>\<open>datetime.date\<close> belongs to the standard library; what \<^verbatim>\<open>date.py\<close> uses of it
  (the constructor, \<^verbatim>\<open>.year\<close> and \<^verbatim>\<open>strftime('%W')\<close>) is modelled after the
  proleptic Gregorian calendar of CPython's \<^verbatim>\<open>datetime\<close> module, with its helper names.
  A \<^verbatim>\<open>datetime.datetime\<close> or an \<^verbatim>\<open>arrow.Arrow\<close> answers the same three
  operations from its date part.
\<close>

record date =
  date_year :: int
  date_month :: int
  date_day :: int

definition MINYEAR :: int where "MINYEAR = 1"
definition MAXYEAR :: int where "MAXYEAR = 9999"

definition is_leap :: "int \<Rightarrow> bool" where
  "is_leap y = (y mod 4 = 0 \<and> (y mod 100 \<noteq> 0 \<or> y mod 400 = 0))"

definition days_before_year :: "int \<Rightarrow> int" where
  "days_before_year y = (let p = y - 1 in p * 365 + p div 4 - p div 100 + p div 400)"

definition DAYS_IN_MONTH :: "int list" where
  "DAYS_IN_MONTH = [-1, 31, 28, 31, 30, 31, 30, 31, 31, 30, 31, 30, 31]"

definition DAYS_BEFORE_MONTH :: "int list" where
  "DAYS_BEFORE_MONTH = [-1, 0, 31, 59, 90, 120, 151, 181, 212, 243, 273, 304, 334]"

text \<open>Both are called with \<open>1 \<le> m \<le> 12\<close> only, inside the tables.\<close>

definition days_in_month :: "int \<Rightarrow> int \<Rightarrow> int" where
  "days_in_month y m = (if m = 2 \<and> is_leap y then 29 else DAYS_IN_MONTH ! nat m)"

definition days_before_month :: "int \<Rightarrow> int \<Rightarrow> int" where
  "days_before_month y m = DAYS_BEFORE_MONTH ! nat m + (if m > 2 \<and> is_leap y then 1 else 0)"

text \<open>The dates the constructor accepts; every \<^verbatim>\<open>date\<close> object satisfies this.\<close>

definition valid_date :: "date \<Rightarrow> bool" where
  "valid_date d =
     (MINYEAR \<le> date_year d \<and> date_year d \<le> MAXYEAR
      \<and> 1 \<le> date_month d \<and> date_month d \<le> 12
      \<and> 1 \<le> date_day d \<and> date_day d \<le> days_in_month (date_year d) (date_month d))"

text \<open>\<^verbatim>\<open>datetime.date(y, m, d)\<close>: raises \<^verbatim>\<open>ValueError\<close> on a field out of range.\<close>

definition datetime_date :: "int \<Rightarrow> int \<Rightarrow> int \<Rightarrow> error + date" where
  "datetime_date y m d =
     (if \<not> (MINYEAR \<le> y \<and> y \<le> MAXYEAR) then Inl (ValueError ''year must be in 1..9999'')
      else if \<not> (1 \<le> m \<and> m \<le> 12) then Inl (ValueError ''month must be in 1..12'')
      else if \<not> (1 \<le> d \<and> d \<le> days_in_month y m) then Inl (ValueError ''day is out of range for month'')
      else Inr \<lparr>date_year = y, date_month = m, date_day = d\<rparr>)"

text \<open>\<^verbatim>\<open>toordinal()\<close>: day 1 is 0001-01-01.\<close>

definition toordinal :: "date \<Rightarrow> int" where
  "toordinal d =
     days_before_year (date_year d) + days_before_month (date_year d) (date_month d) + date_day d"

text \<open>\<^verbatim>\<open>weekday()\<close>: Monday is 0, Sunday is 6.\<close>

definition weekday :: "date \<Rightarrow> int" where
  "weekday d = (toordinal d + 6) mod 7"

text \<open>\<^verbatim>\<open>timetuple().tm_yday\<close>: the day of the year, January 1st is 1.\<close>

definition tm_yday :: "date \<Rightarrow> int" where
  "tm_yday d = days_before_month (date_year d) (date_month d) + date_day d"

text \<open>
  The number that \<^verbatim>\<open>%W\<close> prints: ``week number of the year (Monday as the first day of
  the week); all days in a new year preceding the first Monday are considered to be in
  week 0''. In C, \<^verbatim>\<open>(tm_yday + 7 - (tm_wday + 6) % 7) / 7\<close> with \<^verbatim>\<open>tm_yday\<close> counted
  from 0 and \<^verbatim>\<open>tm_wday\<close> from Sunday; \<^verbatim>\<open>(tm_wday + 6) % 7\<close> is \<open>weekday\<close>.
\<close>

definition week_of_year_monday :: "date \<Rightarrow> int" where
  "week_of_year_monday d = (tm_yday d - 1 + 7 - weekday d) div 7"

text \<open>Decimal digits, for \<^verbatim>\<open>%02d\<close> and for \<^verbatim>\<open>int(...)\<close>.\<close>

definition DIGITS :: string where
  "DIGITS = ''0123456789''"

definition digit_char :: "int \<Rightarrow> char" where
  "digit_char n = DIGITS ! nat n"

definition digit_value :: "char \<Rightarrow> int option" where
  "digit_value c = map_of (zip DIGITS [0..9]) c"

text \<open>\<^verbatim>\<open>date_object.strftime('%W')\<close>: the week number on two digits.\<close>

definition strftime_W :: "date \<Rightarrow> string" where
  "strftime_W d =
     (let w = week_of_year_monday d in [digit_char (w div 10), digit_char (w mod 10)])"

text \<open>
  \<^verbatim>\<open>int(s)\<close> on a string of decimal digits, the only strings \<^verbatim>\<open>%W\<close> produces; any
  other string is taken to raise \<^verbatim>\<open>ValueError\<close> (Python also reads signs, blanks and
  underscores, which do not occur here).
\<close>

fun digits_value :: "int \<Rightarrow> string \<Rightarrow> int option" where
  "digits_value acc [] = Some acc"
| "digits_value acc (c # cs) =
     (case digit_value c of None \<Rightarrow> None | Some v \<Rightarrow> digits_value (10 * acc + v) cs)"

definition py_int :: "string \<Rightarrow> error + int" where
  "py_int s =
     (if s = [] then Inl (ValueError ''invalid literal for int() with base 10'')
      else case digits_value 0 s of
             None \<Rightarrow> Inl (ValueError ''invalid literal for int() with base 10'')
           | Some n \<Rightarrow> Inr n)"

subsection \<open>The week extractors\<close>

text \<open>
  \<^verbatim>\<open>MatchYearWeekExtractor.extract\<close>:
  \<^verbatim>\<open>return Week(int(date_object.strftime('%W')), date_object.year)\<close>
\<close>

definition MatchYearWeekExtractor_extract :: "date \<Rightarrow> error + Week" where
  "MatchYearWeekExtractor_extract date_object =
     (case py_int (strftime_W date_object) of
        Inl e \<Rightarrow> Inl e
      | Inr w \<Rightarrow> Inr (Week w (date_year date_object)))"

text \<open>
  \<^verbatim>\<open>NormalWeekExtractor.extract\<close>: the match-year week, and when its number is 0 the
  match-year week of \<^verbatim>\<open>datetime.date(date_object.year - 1, 12, 31)\<close> instead.
\<close>

definition NormalWeekExtractor_extract :: "date \<Rightarrow> error + Week" where
  "NormalWeekExtractor_extract date_object =
     (case MatchYearWeekExtractor_extract date_object of
        Inl e \<Rightarrow> Inl e
      | Inr wk \<Rightarrow>
          if week wk = 0 then
            (case datetime_date (date_year date_object - 1) 12 31 of
               Inl e \<Rightarrow> Inl e
             | Inr prev \<Rightarrow> MatchYearWeekExtractor_extract prev)
          else Inr wk)"

subsection \<open>\<^verbatim>\<open>get_week\<close>\<close>

text \<open>
  The body of \<^verbatim>\<open>get_week\<close>, with its three exits in the order of the source.
  The decorator \<^verbatim>\<open>@deprecated(...)\<close> comes from \<^verbatim>\<open>notalib.deprecated\<close>, which is
  not among the sources; the specification reads it as a documentation note, so a
  decorated call is taken to be a call of the body, with the same arguments and result.
\<close>

definition get_week :: "date \<Rightarrow> mode_value \<Rightarrow> error + Week" where
  "get_week date_object mode =
     (if \<not> isinstance_WeekNumbering mode then
        Inl (TypeError
          (''The mode '' @ py_str mode @ '' does not belong to the WeekNumbering enumeration''))
      else if mode = Member NORMAL then NormalWeekExtractor_extract date_object
      else if mode = Member MATCH_YEAR then MatchYearWeekExtractor_extract date_object
      else Inl (NotImplementedError
             (''Extraction week number in mode '' @ mode_name mode @ '' is not implemented'')))"

text \<open>
  A call of \<^verbatim>\<open>get_week\<close>: the second argument may be left out, and the signature
  \<^verbatim>\<open>mode: WeekNumbering = WeekNumbering.NORMAL\<close> fills it in.
\<close>

definition get_week_call :: "date \<Rightarrow> mode_value option \<Rightarrow> error + Week" where
  "get_week_call date_object mode_arg =
     get_week date_object (case mode_arg of None \<Rightarrow> Member NORMAL | Some mode \<Rightarrow> mode)"


subsection \<open>The library's parser: \<^verbatim>\<open>arrow.get\<close> and \<^verbatim>\<open>Arrow.format\<close>\<close>

text \<open>
  An \<^verbatim>\<open>arrow.Arrow\<close> value, by the fields of its timestamp.
\<close>

record Arrow =
  arrow_year :: int
  arrow_month :: int
  arrow_day :: int
  arrow_hour :: int
  arrow_minute :: int
  arrow_second :: int

text \<open>
  \<^verbatim>\<open>arrow.get(s, f)\<close> and \<^verbatim>\<open>a.format(f)\<close> belong to the third-party library
  \<^verbatim>\<open>arrow\<close>. They are parameters of the functions below: \<open>get s f\<close> is the outcome of
  \<^verbatim>\<open>arrow.get(s, f)\<close>, an \<open>Arrow\<close> or the exception raised, and \<open>fmt a f\<close> is the string
  \<^verbatim>\<open>a.format(f)\<close>. The first argument of \<open>get\<close> is a Python value that may be
  \<^verbatim>\<open>None\<close>, since \<^verbatim>\<open>normalize_date\<close> can pass \<^verbatim>\<open>None\<close> on.
\<close>

type_synonym arrow_get = "string option \<Rightarrow> string \<Rightarrow> error + Arrow"

type_synonym arrow_format = "Arrow \<Rightarrow> string \<Rightarrow> string"

text \<open>\<^verbatim>\<open>str(s)\<close> of an optional string, as an f-string renders it.\<close>

fun str_optional :: "string option \<Rightarrow> string" where
  "str_optional None = ''None''"
| "str_optional (Some s) = s"

text \<open>
  \<^verbatim>\<open>DateFormats = Union[str, List[str], Tuple[str]]\<close>: one format, or a sequence of
  formats.
\<close>

datatype DateFormats = Format string | Formats "string list"

text \<open>
  Modelled from the spec: \<^verbatim>\<open>ensure_iterable\<close> comes from \<^verbatim>\<open>notalib.array\<close>, which is not
  among the sources. The specification speaks of ``one or more candidate format
  strings'' tried in order: a single format stands for the one-element sequence, and
  a sequence is taken as it is.
\<close>

fun ensure_iterable :: "DateFormats \<Rightarrow> string list" where
  "ensure_iterable (Format f) = [f]"
| "ensure_iterable (Formats fs) = fs"

subsection \<open>\<^verbatim>\<open>parse_month\<close>\<close>


subsection \<open>\<^verbatim>\<open>parse_date\<close>\<close>

text \<open>
  The \<^verbatim>\<open>for\<close> loop over the formats: a successful \<^verbatim>\<open>arrow.get\<close> returns at once,
  a \<^verbatim>\<open>ValueError\<close> is swallowed and the loop goes on, any other exception leaves the
  function; after the last format the function raises its own \<^verbatim>\<open>ValueError\<close>, with
  the message \<open>could_not_parse s\<close>.
\<close>

definition could_not_parse :: "string option \<Rightarrow> string" where
  "could_not_parse s =
     ''Could not parse date `'' @ str_optional s @ ''` with any of the specified formats''"

fun parse_date_loop :: "arrow_get \<Rightarrow> string option \<Rightarrow> string list \<Rightarrow> error + Arrow" where
  "parse_date_loop get s [] = Inl (ValueError (could_not_parse s))"
| "parse_date_loop get s (f # fs) =
     (case get s f of
        Inr a \<Rightarrow> Inr a
      | Inl e \<Rightarrow> if is_ValueError e then parse_date_loop get s fs else Inl e)"

definition parse_date :: "arrow_get \<Rightarrow> string option \<Rightarrow> DateFormats \<Rightarrow> error + Arrow" where
  "parse_date get s format_or_formats = parse_date_loop get s (ensure_iterable format_or_formats)"

subsection \<open>\<^verbatim>\<open>normalize_date\<close>\<close>

text \<open>
  \<^verbatim>\<open>if s is None and allow_empty: return None\<close>, then
  \<^verbatim>\<open>return parse_date(s, input_formats).format(output_format)\<close>.
\<close>

definition normalize_date ::
  "arrow_get \<Rightarrow> arrow_format \<Rightarrow> string option \<Rightarrow> DateFormats \<Rightarrow> string \<Rightarrow> bool
     \<Rightarrow> error + string option" where
  "normalize_date get fmt s input_formats output_format allow_empty =
     (if s = None \<and> allow_empty then Inr None
      else case parse_date get s input_formats of
             Inl e \<Rightarrow> Inl e
           | Inr a \<Rightarrow> Inr (Some (fmt a output_format)))"

subsection \<open>Notions of the specification\<close>

text \<open>An outcome that is an exception of a given class.\<close>

definition raises :: "(error \<Rightarrow> bool) \<Rightarrow> error + 'a \<Rightarrow> bool" where
  "raises cls r = (case r of Inl e \<Rightarrow> cls e | Inr _ \<Rightarrow> False)"

text \<open>
  The Monday-first week index in the specification's words: the number of Mondays of
  the date's year that fall on or before the date. The \<open>k\<close>-th day of year \<open>y\<close> has the
  ordinal \<open>days_before_year y + k\<close>, and it is a Monday when its weekday is 0.
\<close>

definition mondays_until :: "date \<Rightarrow> int" where
  "mondays_until d =
     int (length (filter (\<lambda>k. (days_before_year (date_year d) + k + 6) mod 7 = 0)
                    [1..tm_yday d]))"

text \<open>The ordinal of the Monday that begins the week of a date.\<close>

definition monday_of_week :: "date \<Rightarrow> int" where
  "monday_of_week d = toordinal d - weekday d"


text \<open>
  A parser and a formatter for the concrete instances. The parser reads the date
  \<^verbatim>\<open>2021-05-01\<close> in the format \<^verbatim>\<open>YYYY-MM-DD\<close> and the month \<^verbatim>\<open>2021-5\<close> in the
  format \<^verbatim>\<open>YYYY-M\<close>, and fails on everything else with the library's parse error;
  the formatter knows the token \<^verbatim>\<open>YYYY\<close>, the year on four digits.
\<close>

definition sample_get :: arrow_get where
  "sample_get s f =
     (if s = Some ''2021-05-01'' \<and> f = ''YYYY-MM-DD'' then
        Inr \<lparr>arrow_year = 2021, arrow_month = 5, arrow_day = 1,
             arrow_hour = 0, arrow_minute = 0, arrow_second = 0\<rparr>
      else if s = Some ''2021-5'' \<and> f = ''YYYY-M'' then
        Inr \<lparr>arrow_year = 2021, arrow_month = 5, arrow_day = 1,
             arrow_hour = 0, arrow_minute = 0, arrow_second = 0\<rparr>
      else Inl (ValueError ''Failed to match the format''))"

definition sample_format :: arrow_format where
  "sample_format a f =
     (if f = ''YYYY'' then [digit_char (arrow_year a div 1000 mod 10),
        digit_char (arrow_year a div 100 mod 10), digit_char (arrow_year a div 10 mod 10),
        digit_char (arrow_year a mod 10)]
      else f)"

text \<open>
  The shape \<^verbatim>\<open>YYYY-M\<close> in the specification's words: four digits, a hyphen, and one or
  two digits, and nothing else.
\<close>

definition is_digit :: "char \<Rightarrow> bool" where
  "is_digit c = (c \<in> set DIGITS)"

definition matches_YYYY_M :: "string \<Rightarrow> bool" where
  "matches_YYYY_M s =
     ((length s = 6 \<or> length s = 7)
      \<and> list_all is_digit (take 4 s) \<and> s ! 4 = CHR ''-'' \<and> list_all is_digit (drop 5 s))"


section \<open>Properties\<close>

subsection \<open>The calendar\<close>

lemma days_before_month_table:
  "list_all (\<lambda>m. 0 \<le> days_before_month y m \<and> days_before_month y m + days_in_month y m \<le> 366)
     [1..12]"
  by (simp add: upto.simps days_before_month_def days_in_month_def DAYS_BEFORE_MONTH_def
      DAYS_IN_MONTH_def)

lemma days_before_month_bounds:
  assumes "1 \<le> m" "m \<le> 12"
  shows "0 \<le> days_before_month y m \<and> days_before_month y m + days_in_month y m \<le> 366"
proof -
  have "m \<in> set [1..12]" using assms by simp
  then show ?thesis using days_before_month_table [of y] unfolding list_all_iff by blast
qed

lemma tm_yday_bounds:
  assumes "valid_date d"
  shows "1 \<le> tm_yday d \<and> tm_yday d \<le> 366"
  using assms days_before_month_bounds [of "date_month d" "date_year d"]
  by (auto simp: valid_date_def tm_yday_def)

lemma weekday_bounds: "0 \<le> weekday d \<and> weekday d \<le> 6"
  by (simp add: weekday_def) 

lemma week_bounds:
  assumes "valid_date d"
  shows "0 \<le> week_of_year_monday d \<and> week_of_year_monday d \<le> 53"
  using tm_yday_bounds [OF assms] weekday_bounds [of d]
  unfolding week_of_year_monday_def by presburger

lemma digit_table: "list_all (\<lambda>n. digit_value (digit_char n) = Some n) [0..9]"
  by (simp add: upto.simps digit_value_def digit_char_def DIGITS_def)

lemma digit_value_digit_char:
  assumes "0 \<le> n" "n < 10"
  shows "digit_value (digit_char n) = Some n"
proof -
  have "n \<in> set [0..9]" using assms by simp
  then show ?thesis using digit_table unfolding list_all_iff by blast
qed

lemma py_int_two_digits:
  assumes "0 \<le> w" "w < 100"
  shows "py_int [digit_char (w div 10), digit_char (w mod 10)] = Inr w"
proof -
  have a: "digit_value (digit_char (w div 10)) = Some (w div 10)"
    using assms by (intro digit_value_digit_char) auto
  have b: "digit_value (digit_char (w mod 10)) = Some (w mod 10)"
    using assms by (intro digit_value_digit_char) auto
  show ?thesis unfolding py_int_def using a b by simp
qed

lemma MatchYear_extract_valid:
  assumes "valid_date d"
  shows "MatchYearWeekExtractor_extract d = Inr (Week (week_of_year_monday d) (date_year d))"
proof -
  have "py_int (strftime_W d) = Inr (week_of_year_monday d)"
    unfolding strftime_W_def Let_def using week_bounds [OF assms]
    by (intro py_int_two_digits) auto
  then show ?thesis by (simp add: MatchYearWeekExtractor_extract_def)
qed

lemma days_before_year_1: "days_before_year 1 = 0"
  by (simp add: days_before_year_def)

lemma week_year_1:
  assumes "valid_date d" "date_year d = 1"
  shows "1 \<le> week_of_year_monday d"
proof -
  have "weekday d = (tm_yday d + 6) mod 7"
    using assms by (simp add: weekday_def toordinal_def tm_yday_def days_before_year_1)
  then show ?thesis
    using tm_yday_bounds [OF assms(1)] unfolding week_of_year_monday_def by presburger
qed

lemma week_zero_year:
  assumes "valid_date d" "week_of_year_monday d = 0"
  shows "2 \<le> date_year d"
proof -
  have "date_year d \<noteq> 1" using week_year_1 [OF assms(1)] assms(2) by auto
  then show ?thesis using assms(1) by (simp add: valid_date_def MINYEAR_def)
qed

lemma december_31:
  assumes "MINYEAR \<le> y" "y \<le> MAXYEAR"
  shows "datetime_date y 12 31 = Inr \<lparr>date_year = y, date_month = 12, date_day = 31\<rparr>"
    and "valid_date \<lparr>date_year = y, date_month = 12, date_day = 31\<rparr>"
    and "52 \<le> week_of_year_monday \<lparr>date_year = y, date_month = 12, date_day = 31\<rparr>"
proof -
  show "datetime_date y 12 31 = Inr \<lparr>date_year = y, date_month = 12, date_day = 31\<rparr>"
    using assms by (simp add: datetime_date_def days_in_month_def DAYS_IN_MONTH_def)
  show "valid_date \<lparr>date_year = y, date_month = 12, date_day = 31\<rparr>"
    using assms by (simp add: valid_date_def days_in_month_def DAYS_IN_MONTH_def)
  have "364 \<le> tm_yday \<lparr>date_year = y, date_month = 12, date_day = 31\<rparr>"
    by (simp add: tm_yday_def days_before_month_def DAYS_BEFORE_MONTH_def)
  then show "52 \<le> week_of_year_monday \<lparr>date_year = y, date_month = 12, date_day = 31\<rparr>"
    using weekday_bounds [of "\<lparr>date_year = y, date_month = 12, date_day = 31\<rparr>"]
    unfolding week_of_year_monday_def by presburger
qed

lemma Normal_extract_valid:
  assumes "valid_date d"
  shows "NormalWeekExtractor_extract d =
     (if week_of_year_monday d = 0
      then Inr (Week (week_of_year_monday \<lparr>date_year = date_year d - 1, date_month = 12, date_day = 31\<rparr>)
                 (date_year d - 1))
      else Inr (Week (week_of_year_monday d) (date_year d)))"
proof (cases "week_of_year_monday d = 0")
  case False
  then show ?thesis
    by (simp add: NormalWeekExtractor_extract_def MatchYear_extract_valid [OF assms])
next
  case True
  let ?p = "\<lparr>date_year = date_year d - 1, date_month = 12, date_day = 31\<rparr>"
  have lo: "MINYEAR \<le> date_year d - 1"
    using week_zero_year [OF assms True] by (simp add: MINYEAR_def)
  have hi: "date_year d - 1 \<le> MAXYEAR"
    using assms by (simp add: valid_date_def)
  have "MatchYearWeekExtractor_extract ?p = Inr (Week (week_of_year_monday ?p) (date_year d - 1))"
    using MatchYear_extract_valid [OF december_31(2) [OF lo hi]] by simp
  then show ?thesis
    using True december_31(1) [OF lo hi]
    by (simp add: NormalWeekExtractor_extract_def MatchYear_extract_valid [OF assms])
qed

lemma week_step:
  fixes a m :: int
  shows "(m + 1 - 1 + 7 - (a + (m + 1) + 6) mod 7) div 7
       = (m - 1 + 7 - (a + m + 6) mod 7) div 7 + (if (a + (m + 1) + 6) mod 7 = 0 then 1 else 0)"
proof -
  define r where "r = (a + m + 6) mod 7"
  have rb: "0 \<le> r" "r < 7" by (simp_all add: r_def)
  have "(a + (m + 1) + 6) mod 7 = ((a + m + 6) + 1) mod 7" by (simp add: algebra_simps)
  also have "\<dots> = (r + 1) mod 7" unfolding r_def by (simp add: mod_simps)
  finally have nxt: "(a + (m + 1) + 6) mod 7 = (r + 1) mod 7" .
  show ?thesis
  proof (cases "r = 6")
    case True
    have "(m + 7) div 7 = m div 7 + 1" by simp
    then show ?thesis unfolding nxt r_def [symmetric] True by simp
  next
    case False
    with rb have "r + 1 < 7" "0 \<le> r + 1" by simp_all
    then have s: "(r + 1) mod 7 = r + 1" by simp
    have "r + 1 \<noteq> 0" using rb by simp
    then show ?thesis unfolding nxt r_def [symmetric] s by (simp add: algebra_simps)
  qed
qed

lemma count_mondays:
  "int (length (filter (\<lambda>k. (a + k + 6) mod 7 = 0) [1..int n]))
     = (int n - 1 + 7 - (a + int n + 6) mod 7) div 7"
proof (induction n)
  case 0
  show ?case by simp
next
  case (Suc n)
  let ?c = "\<lambda>m. int (length (filter (\<lambda>k. (a + k + 6) mod 7 = 0) [1..m]))"
  have up: "[1..int n + 1] = [1..int n] @ [int n + 1]"
    by (simp add: upto_rec2)
  have step: "?c (int n + 1) = ?c (int n) + (if (a + (int n + 1) + 6) mod 7 = 0 then 1 else 0)"
    unfolding up by simp
  have "?c (int n + 1) = (int n + 1 - 1 + 7 - (a + (int n + 1) + 6) mod 7) div 7"
    unfolding step Suc.IH week_step [of "int n" a] by (rule refl)
  moreover have "int (Suc n) = int n + 1" by simp
  ultimately show ?case by (simp only:)
qed

lemma week_is_monday_count:
  assumes "valid_date d"
  shows "week_of_year_monday d = mondays_until d"
proof -
  have "0 \<le> tm_yday d" using tm_yday_bounds [OF assms] by simp
  then have "int (nat (tm_yday d)) = tm_yday d" by simp
  then show ?thesis
    using count_mondays [of "days_before_year (date_year d)" "nat (tm_yday d)"]
    by (simp add: mondays_until_def week_of_year_monday_def weekday_def toordinal_def tm_yday_def
        add.assoc)
qed

lemma week_zero_iff:
  assumes "valid_date d"
  shows "week_of_year_monday d = 0 \<longleftrightarrow> monday_of_week d \<le> days_before_year (date_year d)"
proof -
  have m: "monday_of_week d = days_before_year (date_year d) + tm_yday d - weekday d"
    by (simp add: monday_of_week_def toordinal_def tm_yday_def)
  show ?thesis
    using weekday_bounds [of d] tm_yday_bounds [OF assms]
    unfolding week_of_year_monday_def m by presburger
qed

lemma january_1_valid:
  assumes "valid_date d"
  shows "valid_date \<lparr>date_year = date_year d, date_month = 1, date_day = 1\<rparr>"
  using assms by (simp add: valid_date_def days_in_month_def DAYS_IN_MONTH_def)

lemma january_1_first_week:
  assumes "valid_date d"
  shows "mondays_until \<lparr>date_year = date_year d, date_month = 1, date_day = 1\<rparr> \<le> mondays_until d"
proof -
  have "1 \<le> tm_yday d" using tm_yday_bounds [OF assms] by simp
  then have "[1..tm_yday d] = 1 # [2..tm_yday d]"
    by (simp add: upto_rec1)
  moreover have "tm_yday \<lparr>date_year = date_year d, date_month = 1, date_day = 1\<rparr> = 1"
    by (simp add: tm_yday_def days_before_month_def DAYS_BEFORE_MONTH_def)
  ultimately show ?thesis
    by (simp add: mondays_until_def)
qed

subsection \<open>Outcomes of the extractors at concrete dates\<close>

lemma extract_errors_are_ValueError:
  "MatchYearWeekExtractor_extract d = Inl e \<Longrightarrow> is_ValueError e"
  by (auto simp: MatchYearWeekExtractor_extract_def py_int_def
      split: sum.splits if_splits option.splits)

lemma datetime_date_errors_are_ValueError:
  "datetime_date y m d = Inl e \<Longrightarrow> is_ValueError e"
  by (auto simp: datetime_date_def split: if_splits)

lemma Normal_errors_are_ValueError:
  "NormalWeekExtractor_extract d = Inl e \<Longrightarrow> is_ValueError e"
  by (auto simp: NormalWeekExtractor_extract_def
      split: sum.splits if_splits
      dest: extract_errors_are_ValueError datetime_date_errors_are_ValueError)

lemma get_week_NORMAL: "get_week d (Member NORMAL) = NormalWeekExtractor_extract d"
  by (simp add: get_week_def)

lemma get_week_MATCH_YEAR: "get_week d (Member MATCH_YEAR) = MatchYearWeekExtractor_extract d"
  by (simp add: get_week_def)

lemma valid_2018_01_01: "valid_date \<lparr>date_year = 2018, date_month = 1, date_day = 1\<rparr>"
  by (simp add: valid_date_def MINYEAR_def MAXYEAR_def days_in_month_def DAYS_IN_MONTH_def)

lemma valid_2019_01_01: "valid_date \<lparr>date_year = 2019, date_month = 1, date_day = 1\<rparr>"
  by (simp add: valid_date_def MINYEAR_def MAXYEAR_def days_in_month_def DAYS_IN_MONTH_def)

lemma week_2018_01_01: "week_of_year_monday \<lparr>date_year = 2018, date_month = 1, date_day = 1\<rparr> = 1"
  by (simp add: week_of_year_monday_def tm_yday_def weekday_def toordinal_def days_before_year_def
      days_before_month_def DAYS_BEFORE_MONTH_def)

lemma week_2019_01_01: "week_of_year_monday \<lparr>date_year = 2019, date_month = 1, date_day = 1\<rparr> = 0"
  by (simp add: week_of_year_monday_def tm_yday_def weekday_def toordinal_def days_before_year_def
      days_before_month_def DAYS_BEFORE_MONTH_def)

lemma week_2018_12_31: "week_of_year_monday \<lparr>date_year = 2018, date_month = 12, date_day = 31\<rparr> = 53"
  by (simp add: week_of_year_monday_def tm_yday_def weekday_def toordinal_def days_before_year_def
      days_before_month_def DAYS_BEFORE_MONTH_def is_leap_def)

lemma new_year_2018:
  "get_week \<lparr>date_year = 2018, date_month = 1, date_day = 1\<rparr> (Member MATCH_YEAR) = Inr (Week 1 2018)"
  "get_week \<lparr>date_year = 2018, date_month = 1, date_day = 1\<rparr> (Member NORMAL) = Inr (Week 1 2018)"
  by (simp_all add: get_week_NORMAL get_week_MATCH_YEAR Normal_extract_valid [OF valid_2018_01_01]
      MatchYear_extract_valid [OF valid_2018_01_01] week_2018_01_01)

lemma new_year_2019:
  "get_week \<lparr>date_year = 2019, date_month = 1, date_day = 1\<rparr> (Member MATCH_YEAR) = Inr (Week 0 2019)"
  "get_week \<lparr>date_year = 2019, date_month = 1, date_day = 1\<rparr> (Member NORMAL) = Inr (Week 53 2018)"
  by (simp_all add: get_week_NORMAL get_week_MATCH_YEAR Normal_extract_valid [OF valid_2019_01_01]
      MatchYear_extract_valid [OF valid_2019_01_01] week_2019_01_01 week_2018_12_31)

subsection \<open>The claims on the week extractors\<close>

text \<open>
  C1. For every valid date, \<^verbatim>\<open>get_week(d, WeekNumbering.NORMAL)\<close>, which is
  \<^verbatim>\<open>NormalWeekExtractor.extract(d)\<close>, returns a \<open>Week\<close> whose week number is at least 1,
  never 0.
\<close>

theorem normal_week_never_zero:
  assumes "valid_date d"
  shows "\<exists>w. get_week d (Member NORMAL) = Inr w \<and> NormalWeekExtractor_extract d = Inr w
           \<and> 1 \<le> week w"
proof (cases "week_of_year_monday d = 0")
  case False
  then have "1 \<le> week_of_year_monday d" using week_bounds [OF assms] by simp
  then show ?thesis
    using False by (simp add: get_week_NORMAL Normal_extract_valid [OF assms])
next
  case True
  have "MINYEAR \<le> date_year d - 1"
    using week_zero_year [OF assms True] by (simp add: MINYEAR_def)
  moreover have "date_year d - 1 \<le> MAXYEAR"
    using assms by (simp add: valid_date_def)
  ultimately have
    "52 \<le> week_of_year_monday \<lparr>date_year = date_year d - 1, date_month = 12, date_day = 31\<rparr>"
    by (rule december_31(3))
  then show ?thesis
    using True by (simp add: get_week_NORMAL Normal_extract_valid [OF assms])
qed

theorem normal_week_never_zero_witness:
  "valid_date \<lparr>date_year = 2019, date_month = 1, date_day = 1\<rparr>
   \<and> (\<exists>w. get_week \<lparr>date_year = 2019, date_month = 1, date_day = 1\<rparr> (Member NORMAL) = Inr w
          \<and> 1 \<le> week w)"
  using valid_2019_01_01 normal_week_never_zero [OF valid_2019_01_01] by blast

text \<open>
  C2, as the code has it. 2018-01-01 is a Monday, so \<^verbatim>\<open>%W\<close> is \<open>01\<close>: \<^verbatim>\<open>get_week\<close>
  returns \<open>Week(1, 2018)\<close> in both modes and no fallback takes place. The pair
  \<open>Week(0, y)\<close> and \<open>Week(53, y - 1)\<close> is what the two modes return for 2019-01-01, a
  Tuesday.
\<close>

theorem get_week_new_year_examples:
  "get_week \<lparr>date_year = 2018, date_month = 1, date_day = 1\<rparr> (Member MATCH_YEAR) = Inr (Week 1 2018)
   \<and> get_week \<lparr>date_year = 2018, date_month = 1, date_day = 1\<rparr> (Member NORMAL) = Inr (Week 1 2018)
   \<and> get_week \<lparr>date_year = 2019, date_month = 1, date_day = 1\<rparr> (Member MATCH_YEAR) = Inr (Week 0 2019)
   \<and> get_week \<lparr>date_year = 2019, date_month = 1, date_day = 1\<rparr> (Member NORMAL) = Inr (Week 53 2018)"
  by (simp add: new_year_2018 new_year_2019)

text \<open>
  C2 as the specification states it (\<open>Week(0, 2018)\<close> in mode \<open>MATCH_YEAR\<close> and
  \<open>Week(53, 2017)\<close> in mode \<open>NORMAL\<close> for 2018-01-01) does not hold.
\<close>

theorem get_week_2018_01_01_counterexample:
  "\<not> (get_week \<lparr>date_year = 2018, date_month = 1, date_day = 1\<rparr> (Member MATCH_YEAR) = Inr (Week 0 2018)
      \<and> get_week \<lparr>date_year = 2018, date_month = 1, date_day = 1\<rparr> (Member NORMAL) = Inr (Week 53 2017))"
  by (simp add: new_year_2018)

text \<open>
  C3. For every valid date, mode \<open>NORMAL\<close> returns what mode \<open>MATCH_YEAR\<close> returns when
  the match-year week number is not 0; when it is 0, mode \<open>NORMAL\<close> returns the
  match-year extraction of December 31 of the previous year, a date that exists, and
  the year of the result is \<open>d.year - 1\<close>.
\<close>

theorem normal_week_is_match_year_or_fallback:
  assumes "valid_date d"
  shows "\<exists>my. get_week d (Member MATCH_YEAR) = Inr my
          \<and> (if week my \<noteq> 0 then get_week d (Member NORMAL) = Inr my
             else \<exists>prev w. datetime_date (date_year d - 1) 12 31 = Inr prev
                    \<and> get_week d (Member NORMAL) = MatchYearWeekExtractor_extract prev
                    \<and> get_week d (Member NORMAL) = Inr w
                    \<and> year w = date_year d - 1)"
proof (cases "week_of_year_monday d = 0")
  case False
  then show ?thesis
    by (simp add: get_week_NORMAL get_week_MATCH_YEAR Normal_extract_valid [OF assms]
        MatchYear_extract_valid [OF assms])
next
  case True
  let ?p = "\<lparr>date_year = date_year d - 1, date_month = 12, date_day = 31\<rparr>"
  have lo: "MINYEAR \<le> date_year d - 1"
    using week_zero_year [OF assms True] by (simp add: MINYEAR_def)
  have hi: "date_year d - 1 \<le> MAXYEAR"
    using assms by (simp add: valid_date_def)
  have p: "datetime_date (date_year d - 1) 12 31 = Inr ?p"
    by (rule december_31(1) [OF lo hi])
  have mp: "MatchYearWeekExtractor_extract ?p = Inr (Week (week_of_year_monday ?p) (date_year d - 1))"
    using MatchYear_extract_valid [OF december_31(2) [OF lo hi]] by simp
  show ?thesis
    using True p mp
    by (simp add: get_week_NORMAL get_week_MATCH_YEAR Normal_extract_valid [OF assms]
        MatchYear_extract_valid [OF assms])
qed

theorem normal_week_is_match_year_or_fallback_witness:
  "valid_date \<lparr>date_year = 2019, date_month = 1, date_day = 1\<rparr>
   \<and> (\<exists>my. get_week \<lparr>date_year = 2019, date_month = 1, date_day = 1\<rparr> (Member MATCH_YEAR) = Inr my
        \<and> week my = 0
        \<and> (\<exists>w. get_week \<lparr>date_year = 2019, date_month = 1, date_day = 1\<rparr> (Member NORMAL) = Inr w
               \<and> year w = 2018))"
  using valid_2019_01_01 normal_week_is_match_year_or_fallback [OF valid_2019_01_01]
  by (auto simp: new_year_2019)

text \<open>
  C4. For every valid date, mode \<open>MATCH_YEAR\<close> returns \<open>Week(w, d.year)\<close>, where \<open>w\<close>, the
  number \<^verbatim>\<open>%W\<close> prints, is the Monday-first week index of the date (the number of
  Mondays of the year up to the date) and lies between 0 and 53; \<open>w\<close> is 0 exactly when
  the date comes before the first Monday of its year, that is, when the Monday that
  begins its week lies in the previous year. The first week of the year, the one with
  the lowest number, is the week of January 1st: no date of the year has a smaller
  week number than January 1st.
\<close>

theorem match_year_week:
  assumes "valid_date d"
  shows "get_week d (Member MATCH_YEAR) = Inr (Week (mondays_until d) (date_year d))
         \<and> mondays_until d = week_of_year_monday d
         \<and> 0 \<le> mondays_until d \<and> mondays_until d \<le> 53
         \<and> ((mondays_until d = 0) = (monday_of_week d \<le> days_before_year (date_year d)))
         \<and> get_week \<lparr>date_year = date_year d, date_month = 1, date_day = 1\<rparr> (Member MATCH_YEAR)
             = Inr (Week (mondays_until \<lparr>date_year = date_year d, date_month = 1, date_day = 1\<rparr>)
                     (date_year d))
         \<and> mondays_until \<lparr>date_year = date_year d, date_month = 1, date_day = 1\<rparr> \<le> mondays_until d"
proof -
  let ?j = "\<lparr>date_year = date_year d, date_month = 1, date_day = 1\<rparr>"
  have j: "valid_date ?j" by (rule january_1_valid [OF assms])
  have "get_week ?j (Member MATCH_YEAR) = Inr (Week (mondays_until ?j) (date_year d))"
    using week_is_monday_count [OF j] MatchYear_extract_valid [OF j]
    by (simp add: get_week_MATCH_YEAR)
  then show ?thesis
    using week_is_monday_count [OF assms] week_bounds [OF assms] week_zero_iff [OF assms]
      MatchYear_extract_valid [OF assms] january_1_first_week [OF assms]
    by (simp add: get_week_MATCH_YEAR)
qed

theorem match_year_week_witness:
  "valid_date \<lparr>date_year = 2019, date_month = 1, date_day = 1\<rparr>
   \<and> get_week \<lparr>date_year = 2019, date_month = 1, date_day = 1\<rparr> (Member MATCH_YEAR) = Inr (Week 0 2019)
   \<and> mondays_until \<lparr>date_year = 2019, date_month = 1, date_day = 1\<rparr> = 0
   \<and> monday_of_week \<lparr>date_year = 2019, date_month = 1, date_day = 1\<rparr>
       \<le> days_before_year 2019"
proof -
  let ?d = "\<lparr>date_year = 2019, date_month = 1, date_day = 1\<rparr>"
  have c: "mondays_until ?d = 0"
    using match_year_week [OF valid_2019_01_01] by (simp add: week_2019_01_01)
  then have "monday_of_week ?d \<le> days_before_year (date_year ?d)"
    using match_year_week [OF valid_2019_01_01] by blast
  then show ?thesis
    using c valid_2019_01_01 match_year_week [OF valid_2019_01_01] by simp
qed

subsection \<open>The claims on the dispatch of \<^verbatim>\<open>get_week\<close>\<close>

text \<open>
  C7. \<^verbatim>\<open>get_week(d, mode)\<close> raises \<^verbatim>\<open>TypeError\<close> for every date and every mode that is
  not a member of \<open>WeekNumbering\<close>, and for such modes only.
\<close>

theorem get_week_TypeError_iff_not_member:
  "raises is_TypeError (get_week d mode) = (\<not> isinstance_WeekNumbering mode)"
proof (cases mode)
  case (NonMember r)
  then show ?thesis by (simp add: get_week_def raises_def)
next
  case (Member m)
  have "\<not> raises is_TypeError (NormalWeekExtractor_extract d)"
    using Normal_errors_are_ValueError [of d]
    by (cases "NormalWeekExtractor_extract d") (auto simp: raises_def elim: is_ValueError.elims)
  moreover have "\<not> raises is_TypeError (MatchYearWeekExtractor_extract d)"
    using extract_errors_are_ValueError [of d]
    by (cases "MatchYearWeekExtractor_extract d") (auto simp: raises_def elim: is_ValueError.elims)
  ultimately show ?thesis
    using Member by (cases m) (simp_all add: get_week_def)
qed

theorem get_week_TypeError_iff_not_member_witness:
  "raises is_TypeError (get_week \<lparr>date_year = 2018, date_month = 1, date_day = 1\<rparr> (NonMember ''1''))
   \<and> \<not> raises is_TypeError (get_week \<lparr>date_year = 2018, date_month = 1, date_day = 1\<rparr> (Member NORMAL))"
  using get_week_TypeError_iff_not_member [of "\<lparr>date_year = 2018, date_month = 1, date_day = 1\<rparr>" "NonMember ''1''"]
    get_week_TypeError_iff_not_member [of "\<lparr>date_year = 2018, date_month = 1, date_day = 1\<rparr>" "Member NORMAL"]
  by simp

text \<open>
  C8. \<open>WeekNumbering\<close> has the two members \<open>NORMAL\<close> and \<open>MATCH_YEAR\<close> and no other, and
  for every date and every member \<^verbatim>\<open>get_week\<close> does not raise
  \<^verbatim>\<open>NotImplementedError\<close>: its last branch is not reached.
\<close>

theorem get_week_never_NotImplementedError:
  "(m = NORMAL \<or> m = MATCH_YEAR) \<and> \<not> raises is_NotImplementedError (get_week d (Member m))"
proof -
  have "\<not> raises is_NotImplementedError (NormalWeekExtractor_extract d)"
    using Normal_errors_are_ValueError [of d]
    by (cases "NormalWeekExtractor_extract d") (auto simp: raises_def elim: is_ValueError.elims)
  moreover have "\<not> raises is_NotImplementedError (MatchYearWeekExtractor_extract d)"
    using extract_errors_are_ValueError [of d]
    by (cases "MatchYearWeekExtractor_extract d") (auto simp: raises_def elim: is_ValueError.elims)
  ultimately show ?thesis
    by (cases m) (simp_all add: get_week_def)
qed

theorem get_week_never_NotImplementedError_witness:
  "\<not> raises is_NotImplementedError
        (get_week \<lparr>date_year = 2018, date_month = 1, date_day = 1\<rparr> (Member MATCH_YEAR))"
  using get_week_never_NotImplementedError
    [of MATCH_YEAR "\<lparr>date_year = 2018, date_month = 1, date_day = 1\<rparr>"]
  by simp

text \<open>
  C10. A call of \<^verbatim>\<open>get_week\<close> without a mode is the call with
  \<open>WeekNumbering.NORMAL\<close>; a call with a mode uses that mode.
\<close>

theorem get_week_default_mode:
  "get_week_call d None = get_week d (Member NORMAL)
   \<and> get_week_call d None = get_week_call d (Some (Member NORMAL))
   \<and> get_week_call d (Some mode) = get_week d mode"
  by (simp add: get_week_call_def)

theorem get_week_default_mode_witness:
  "get_week_call \<lparr>date_year = 2019, date_month = 1, date_day = 1\<rparr> None = Inr (Week 53 2018)"
  using get_week_default_mode [of "\<lparr>date_year = 2019, date_month = 1, date_day = 1\<rparr>"]
  by (simp add: new_year_2019)

subsection \<open>The claims on parsing\<close>


lemma parse_date_loop_ValueError_iff:
  "raises is_ValueError (parse_date_loop get s fs) = (\<forall>f \<in> set fs. raises is_ValueError (get s f))"
proof (induction fs)
  case Nil
  show ?case by (simp add: raises_def)
next
  case (Cons f fs)
  show ?case
  proof (cases "get s f")
    case (Inr a)
    then show ?thesis by (simp add: raises_def)
  next
    case (Inl e)
    then show ?thesis using Cons.IH by (simp add: raises_def)
  qed
qed









text \<open>
  C6. \<^verbatim>\<open>normalize_date\<close> returns \<^verbatim>\<open>None\<close> for the input \<^verbatim>\<open>None\<close> when empty input is
  allowed. For a string it returns the result of \<^verbatim>\<open>parse_date\<close> formatted with the output
  format, and it fails exactly as \<^verbatim>\<open>parse_date\<close> fails: with the same exception, and
  with a \<^verbatim>\<open>ValueError\<close> exactly when every input format raises one.
\<close>

theorem normalize_date_parses_and_formats:
  "normalize_date get fmt None input_formats output_format True = Inr None
   \<and> normalize_date get fmt (Some s) input_formats output_format allow_empty =
       (case parse_date get (Some s) input_formats of
          Inl e \<Rightarrow> Inl e
        | Inr a \<Rightarrow> Inr (Some (fmt a output_format)))
   \<and> (\<forall>e. (normalize_date get fmt (Some s) input_formats output_format allow_empty = Inl e)
          = (parse_date get (Some s) input_formats = Inl e))
   \<and> raises is_ValueError (normalize_date get fmt (Some s) input_formats output_format allow_empty)
       = (\<forall>f \<in> set (ensure_iterable input_formats). raises is_ValueError (get (Some s) f))"
proof -
  have "raises is_ValueError (normalize_date get fmt (Some s) input_formats output_format allow_empty)
      = raises is_ValueError (parse_date get (Some s) input_formats)"
    by (simp add: normalize_date_def raises_def split: sum.splits)
  then have "raises is_ValueError (normalize_date get fmt (Some s) input_formats output_format allow_empty)
       = (\<forall>f \<in> set (ensure_iterable input_formats). raises is_ValueError (get (Some s) f))"
    by (simp add: parse_date_def parse_date_loop_ValueError_iff)
  moreover have "\<forall>e. (normalize_date get fmt (Some s) input_formats output_format allow_empty = Inl e)
          = (parse_date get (Some s) input_formats = Inl e)"
    by (simp add: normalize_date_def split: sum.splits)
  ultimately show ?thesis
    by (simp add: normalize_date_def)
qed

theorem normalize_date_parses_and_formats_witness:
  "normalize_date sample_get sample_format None (Format ''YYYY-MM-DD'') ''YYYY'' True = Inr None
   \<and> normalize_date sample_get sample_format (Some ''2021-05-01'') (Format ''YYYY-MM-DD'') ''YYYY'' True
       = Inr (Some ''2021'')
   \<and> raises is_ValueError
       (normalize_date sample_get sample_format (Some ''bad'') (Format ''YYYY-MM-DD'') ''YYYY'' True)"
proof -
  note good = normalize_date_parses_and_formats
    [of sample_get sample_format "Format ''YYYY-MM-DD''" "''YYYY''" "''2021-05-01''" True]
  note bad = normalize_date_parses_and_formats
    [of sample_get sample_format "Format ''YYYY-MM-DD''" "''YYYY''" "''bad''" True]
  have p: "parse_date sample_get (Some ''2021-05-01'') (Format ''YYYY-MM-DD'')
      = Inr \<lparr>arrow_year = 2021, arrow_month = 5, arrow_day = 1,
             arrow_hour = 0, arrow_minute = 0, arrow_second = 0\<rparr>"
    by (simp add: parse_date_def sample_get_def)
  have f: "sample_format \<lparr>arrow_year = 2021, arrow_month = 5, arrow_day = 1,
             arrow_hour = 0, arrow_minute = 0, arrow_second = 0\<rparr> ''YYYY'' = ''2021''"
    by (simp add: sample_format_def digit_char_def DIGITS_def)
  have r: "raises is_ValueError (sample_get (Some ''bad'') ''YYYY-MM-DD'')"
    by (simp add: sample_get_def raises_def)
  have 1: "normalize_date sample_get sample_format None (Format ''YYYY-MM-DD'') ''YYYY'' True
      = Inr None"
    by (rule good [THEN conjunct1])
  have 2: "normalize_date sample_get sample_format (Some ''2021-05-01'') (Format ''YYYY-MM-DD'')
      ''YYYY'' True = Inr (Some ''2021'')"
    unfolding good [THEN conjunct2, THEN conjunct1] p by (simp add: f)
  have 3: "raises is_ValueError
       (normalize_date sample_get sample_format (Some ''bad'') (Format ''YYYY-MM-DD'') ''YYYY'' True)"
    unfolding bad [THEN conjunct2, THEN conjunct2, THEN conjunct2] using r by simp
  show ?thesis using 1 2 3 by blast
qed

lemma matches_YYYY_M_example: "matches_YYYY_M ''2021-5'' \<and> matches_YYYY_M ''2021-12''"
  by (simp add: matches_YYYY_M_def is_digit_def DIGITS_def)




end
